theory Spec2Isabelle
  imports Main "HOL-Library.Sublist" "HOL-Library.AList"
begin

section \<open>Python strings\<close>

text \<open>
  A Python \<open>str\<close> is modelled as an Isabelle \<open>string\<close>: the character with code \<open>n\<close>
  stands for the code point \<open>n\<close>, so the model covers the texts whose code points are
  below 256, with Python's own whitespace, line-break and case tables on that range.
  \<close>

definition isspace :: "char \<Rightarrow> bool" where
  \<comment> \<open>the characters \<open>str.strip()\<close> removes\<close>
  "isspace c = (c \<in> set [CHR 0x09, CHR 0x0A, CHR 0x0B, CHR 0x0C, CHR 0x0D,
                          CHR 0x1C, CHR 0x1D, CHR 0x1E, CHR 0x1F, CHR 0x20, CHR 0x85, CHR 0xA0])"

definition lstrip_chars :: "(char \<Rightarrow> bool) \<Rightarrow> string \<Rightarrow> string" where
  "lstrip_chars P s = dropWhile P s"

definition rstrip_chars :: "(char \<Rightarrow> bool) \<Rightarrow> string \<Rightarrow> string" where
  "rstrip_chars P s = rev (dropWhile P (rev s))"

definition strip_chars :: "(char \<Rightarrow> bool) \<Rightarrow> string \<Rightarrow> string" where
  \<comment> \<open>\<open>s.strip(chars)\<close>: every leading and every trailing character of the set goes\<close>
  "strip_chars P s = rstrip_chars P (lstrip_chars P s)"

definition strip :: "string \<Rightarrow> string" where
  \<comment> \<open>\<open>s.strip()\<close>\<close>
  "strip s = strip_chars isspace s"

definition upper_chars :: string where
  "upper_chars = ''ABCDEFGHIJKLMNOPQRSTUVWXYZ'' @
     [CHR 0xC0, CHR 0xC1, CHR 0xC2, CHR 0xC3, CHR 0xC4, CHR 0xC5, CHR 0xC6, CHR 0xC7,
      CHR 0xC8, CHR 0xC9, CHR 0xCA, CHR 0xCB, CHR 0xCC, CHR 0xCD, CHR 0xCE, CHR 0xCF,
      CHR 0xD0, CHR 0xD1, CHR 0xD2, CHR 0xD3, CHR 0xD4, CHR 0xD5, CHR 0xD6,
      CHR 0xD8, CHR 0xD9, CHR 0xDA, CHR 0xDB, CHR 0xDC, CHR 0xDD, CHR 0xDE]"

definition lower_chars :: string where
  "lower_chars = ''abcdefghijklmnopqrstuvwxyz'' @
     [CHR 0xE0, CHR 0xE1, CHR 0xE2, CHR 0xE3, CHR 0xE4, CHR 0xE5, CHR 0xE6, CHR 0xE7,
      CHR 0xE8, CHR 0xE9, CHR 0xEA, CHR 0xEB, CHR 0xEC, CHR 0xED, CHR 0xEE, CHR 0xEF,
      CHR 0xF0, CHR 0xF1, CHR 0xF2, CHR 0xF3, CHR 0xF4, CHR 0xF5, CHR 0xF6,
      CHR 0xF8, CHR 0xF9, CHR 0xFA, CHR 0xFB, CHR 0xFC, CHR 0xFD, CHR 0xFE]"

definition lower_char :: "char \<Rightarrow> char" where
  "lower_char c = (case map_of (zip upper_chars lower_chars) c of Some d \<Rightarrow> d | None \<Rightarrow> c)"

definition lower :: "string \<Rightarrow> string" where
  \<comment> \<open>\<open>s.lower()\<close>\<close>
  "lower s = map lower_char s"

fun find_sub :: "string \<Rightarrow> string \<Rightarrow> nat option" where
  "find_sub sub [] = (if sub = [] then Some 0 else None)"
| "find_sub sub (c # cs) =
     (if prefix sub (c # cs) then Some 0 else map_option Suc (find_sub sub cs))"

definition str_find :: "string \<Rightarrow> string \<Rightarrow> nat \<Rightarrow> nat option" where
  \<comment> \<open>\<open>s.find(sub, start)\<close>: the lowest index from \<open>start\<close> on where \<open>sub\<close> begins;
      \<open>None\<close> is Python's \<open>-1\<close>\<close>
  "str_find s sub start =
     (if length s < start then None
      else map_option (\<lambda>i. start + i) (find_sub sub (drop start s)))"

fun split_acc :: "char \<Rightarrow> string \<Rightarrow> string \<Rightarrow> string list" where
  "split_acc sep acc [] = [rev acc]"
| "split_acc sep acc (c # cs) =
     (if c = sep then rev acc # split_acc sep [] cs else split_acc sep (c # acc) cs)"

definition split :: "char \<Rightarrow> string \<Rightarrow> string list" where
  \<comment> \<open>\<open>s.split(sep)\<close> for a separator of one character\<close>
  "split sep s = split_acc sep [] s"

definition split_first :: "char \<Rightarrow> string \<Rightarrow> string \<times> string" where
  \<comment> \<open>\<open>s.split(sep, 1)\<close> on a string that contains \<open>sep\<close>: the text before the first
      separator and the text after it\<close>
  "split_first sep s =
     (takeWhile (\<lambda>c. c \<noteq> sep) s, drop 1 (dropWhile (\<lambda>c. c \<noteq> sep) s))"

definition is_linebreak :: "char \<Rightarrow> bool" where
  \<comment> \<open>the line boundaries of \<open>str.splitlines()\<close>, carriage return apart\<close>
  "is_linebreak c = (c \<in> set [CHR 0x0A, CHR 0x0B, CHR 0x0C, CHR 0x1C, CHR 0x1D, CHR 0x1E, CHR 0x85])"

fun splitlines_acc :: "string \<Rightarrow> string \<Rightarrow> string list" where
  "splitlines_acc acc [] = (if acc = [] then [] else [rev acc])"
| "splitlines_acc acc [c] =
     (if c = CHR 0x0D \<or> is_linebreak c then [rev acc] else [rev (c # acc)])"
| "splitlines_acc acc (c # d # ds) =
     (if c = CHR 0x0D \<and> d = CHR 0x0A then rev acc # splitlines_acc [] ds
      else if c = CHR 0x0D \<or> is_linebreak c then rev acc # splitlines_acc [] (d # ds)
      else splitlines_acc (c # acc) (d # ds))"

definition splitlines :: "string \<Rightarrow> string list" where
  \<comment> \<open>\<open>s.splitlines()\<close>\<close>
  "splitlines s = splitlines_acc [] s"

definition str_of_bool :: "bool \<Rightarrow> string" where
  \<comment> \<open>\<open>str(b)\<close>\<close>
  "str_of_bool b = (if b then ''True'' else ''False'')"

section \<open>MDC format conversion\<close>

datatype meta_value = Str string | Bool bool

text \<open>
  The metadata dictionary keeps its keys in insertion order, and an assignment to a key
  it holds replaces the value in place: \<open>AList.update\<close>.
\<close>

type_synonym metadata = "(string \<times> meta_value) list"

definition markdown_to_mdc :: "string \<Rightarrow> string \<Rightarrow> string \<Rightarrow> bool \<Rightarrow> string" where
  "markdown_to_mdc content description globs always_apply =
     (let frontmatter = ''---\<newline>'';
          frontmatter = (if description \<noteq> []
                         then frontmatter @ ''description: \"'' @ description @ ''\"\<newline>''
                         else frontmatter);
          frontmatter = (if globs \<noteq> []
                         then frontmatter @ ''globs: '' @ globs @ ''\<newline>''
                         else frontmatter);
          frontmatter = frontmatter @ ''alwaysApply: '' @ lower (str_of_bool always_apply)
                          @ ''\<newline>'';
          frontmatter = frontmatter @ ''---\<newline>\<newline>''
      in frontmatter @ content)"

definition coerce :: "string \<Rightarrow> meta_value" where
  "coerce v = (if lower v = ''true'' then Bool True
               else if lower v = ''false'' then Bool False
               else Str v)"

definition parse_line :: "metadata \<Rightarrow> string \<Rightarrow> metadata" where
  \<comment> \<open>the body of the loop over the lines of the front matter\<close>
  "parse_line md line =
     (if CHR '':'' \<in> set line then
        (let (key, v) = split_first CHR '':'' line;
             key = strip key;
             v = strip_chars (\<lambda>c. c = CHR 0x27) (strip_chars (\<lambda>c. c = CHR 0x22) (strip v))
         in AList.update key (coerce v) md)
      else md)"

definition mdc_to_markdown :: "string \<Rightarrow> string \<times> metadata" where
  "mdc_to_markdown content =
     (if \<not> prefix ''---'' content then (content, [])
      else
        (case str_find content ''---'' 3 of
           None \<Rightarrow> (content, [])
         | Some end_idx \<Rightarrow>
             (let frontmatter = strip (take (end_idx - 3) (drop 3 content));
                  markdown = strip (drop (end_idx + 3) content)
              in (markdown, foldl parse_line [] (split CHR ''\<newline>'' frontmatter)))))"

section \<open>The file system\<close>

text \<open>
  The project tree is a store from path names to nodes: a regular file with its text,
  a symbolic link with its target, or a directory. Paths are names relative to the
  project directory, already normalised. A file holds the text that reading returns and
  writing stores; encodings and newline translation are not modelled. An access through
  a path follows symbolic links, at most \<open>MAXSYMLINKS = 40\<close> of them, as the kernel does;
  a longer chain or a loop is an error. The parent directory of a written path is taken
  to exist: the source creates it first, or it is the project directory.
\<close>

type_synonym path = string

datatype node = File string | Symlink path | Dir

type_synonym filesystem = "path \<rightharpoonup> node"

datatype py_error =
    FileNotFoundError | IsADirectoryError | FileExistsError | SymlinkLoop | SameFileError

definition and_then :: "'e + 'a \<Rightarrow> ('a \<Rightarrow> 'e + 'b) \<Rightarrow> 'e + 'b" where
  \<comment> \<open>sequencing: an exception of the first step skips the rest\<close>
  "and_then r f = (case r of Inl e \<Rightarrow> Inl e | Inr x \<Rightarrow> f x)"

fun follow_n :: "nat \<Rightarrow> filesystem \<Rightarrow> path \<Rightarrow> path option" where
  "follow_n 0 s p = (case s p of Some (Symlink t) \<Rightarrow> None | _ \<Rightarrow> Some p)"
| "follow_n (Suc n) s p = (case s p of Some (Symlink t) \<Rightarrow> follow_n n s t | _ \<Rightarrow> Some p)"

definition follow :: "filesystem \<Rightarrow> path \<Rightarrow> path option" where
  \<comment> \<open>the path an access through \<open>p\<close> reaches; \<open>None\<close> is the error \<open>ELOOP\<close>\<close>
  "follow s p = follow_n 40 s p"

definition exists :: "filesystem \<Rightarrow> path \<Rightarrow> bool" where
  \<comment> \<open>\<open>Path.exists()\<close>\<close>
  "exists s p = (case follow s p of None \<Rightarrow> False | Some q \<Rightarrow> s q \<noteq> None)"

definition is_symlink :: "filesystem \<Rightarrow> path \<Rightarrow> bool" where
  \<comment> \<open>\<open>Path.is_symlink()\<close>\<close>
  "is_symlink s p = (case s p of Some (Symlink t) \<Rightarrow> True | _ \<Rightarrow> False)"

definition is_dir :: "filesystem \<Rightarrow> path \<Rightarrow> bool" where
  \<comment> \<open>\<open>Path.is_dir()\<close>\<close>
  "is_dir s p = (case follow s p of None \<Rightarrow> False | Some q \<Rightarrow> s q = Some Dir)"

definition resolve :: "filesystem \<Rightarrow> path \<Rightarrow> py_error + path" where
  \<comment> \<open>\<open>Path.resolve()\<close>\<close>
  "resolve s p = (case follow s p of None \<Rightarrow> Inl SymlinkLoop | Some q \<Rightarrow> Inr q)"

definition read_text :: "filesystem \<Rightarrow> path \<Rightarrow> py_error + string" where
  \<comment> \<open>\<open>Path.read_text()\<close>, \<open>Path.read_bytes()\<close>\<close>
  "read_text s p =
     (case follow s p of
        None \<Rightarrow> Inl SymlinkLoop
      | Some q \<Rightarrow>
          (case s q of
             None \<Rightarrow> Inl FileNotFoundError
           | Some (File c) \<Rightarrow> Inr c
           | Some (Symlink t) \<Rightarrow> Inl SymlinkLoop
           | Some Dir \<Rightarrow> Inl IsADirectoryError))"

definition write_text :: "filesystem \<Rightarrow> path \<Rightarrow> string \<Rightarrow> py_error + filesystem" where
  \<comment> \<open>\<open>Path.write_text()\<close>: creates the file or replaces its text\<close>
  "write_text s p c =
     (case follow s p of
        None \<Rightarrow> Inl SymlinkLoop
      | Some q \<Rightarrow>
          (case s q of
             Some Dir \<Rightarrow> Inl IsADirectoryError
           | _ \<Rightarrow> Inr (s(q \<mapsto> File c))))"

definition path_join :: "path \<Rightarrow> string \<Rightarrow> path" where
  \<comment> \<open>\<open>d / name\<close>\<close>
  "path_join d name = d @ ''/'' @ name"

definition path_name :: "path \<Rightarrow> string" where
  \<comment> \<open>\<open>Path.name\<close>: the final component\<close>
  "path_name p = rev (takeWhile (\<lambda>c. c \<noteq> CHR ''/'') (rev p))"

definition samefile :: "filesystem \<Rightarrow> path \<Rightarrow> path \<Rightarrow> bool" where
  \<comment> \<open>\<open>shutil._samefile\<close>: false when either path cannot be examined\<close>
  "samefile s a b =
     (case (follow s a, follow s b) of
        (Some x, Some y) \<Rightarrow> x = y \<and> s x \<noteq> None
      | _ \<Rightarrow> False)"

definition copy2 :: "filesystem \<Rightarrow> path \<Rightarrow> path \<Rightarrow> py_error + filesystem" where
  \<comment> \<open>\<open>shutil.copy2(src, dst)\<close>; the file times it also copies are not modelled\<close>
  "copy2 s src dst =
     (let dst = (if is_dir s dst then path_join dst (path_name src) else dst)
      in if samefile s src dst then Inl SameFileError
         else and_then (read_text s src) (\<lambda>c. write_text s dst c))"

definition ensure_dir :: "filesystem \<Rightarrow> path \<Rightarrow> py_error + filesystem" where
  \<comment> \<open>\<open>path.mkdir(parents=True, exist_ok=True)\<close>\<close>
  "ensure_dir s p =
     (case s p of
        None \<Rightarrow> Inr (s(p \<mapsto> Dir))
      | Some n \<Rightarrow> if is_dir s p then Inr s else Inl FileExistsError)"

definition file_hash :: "(string \<Rightarrow> 'h) \<Rightarrow> filesystem \<Rightarrow> path \<Rightarrow> py_error + 'h option" where
  \<comment> \<open>the digest \<open>hashlib.md5(...).hexdigest()\<close> is the parameter \<open>md5\<close>\<close>
  "file_hash md5 s p =
     (if \<not> exists s p then Inr None
      else and_then (read_text s p) (\<lambda>c. Inr (Some (md5 c))))"

definition backup_file ::
  "string \<Rightarrow> filesystem \<Rightarrow> path \<Rightarrow> path \<Rightarrow> py_error + (path option \<times> filesystem)" where
  \<comment> \<open>\<open>timestamp\<close> is \<open>datetime.now().strftime("%Y%m%d_%H%M%S")\<close>, read from the clock\<close>
  "backup_file timestamp s p backup_dir =
     (if \<not> exists s p then Inr (None, s)
      else
        (let backup_path = path_join backup_dir (path_name p @ ''.'' @ timestamp @ ''.bak'')
         in and_then (ensure_dir s backup_dir) (\<lambda>s1.
            and_then (copy2 s1 p backup_path) (\<lambda>s2.
            Inr (Some backup_path, s2)))))"

section \<open>InstructionSyncer\<close>

definition agents_md :: path where
  "agents_md = ''AGENTS.md''"

definition claude_md :: path where
  "claude_md = ''CLAUDE.md''"

text \<open>
  \<open>sync\<close> returns a boolean and prints which case it took. The outcome names the case:
  \<open>Bootstrapped\<close> (case 1), \<open>Migrated\<close> (case 2), \<open>ReferenceCreated\<close> (case 3), and for
  case 4 \<open>InSync\<close> (the reference or identical content is reported) or \<open>Diverged\<close> with
  the two line counts that are printed. \<open>returns\<close> is the boolean.
\<close>

datatype outcome = Bootstrapped | Migrated | ReferenceCreated | InSync | Diverged nat nat

fun returns :: "outcome \<Rightarrow> bool" where
  "returns (Diverged a c) = False"
| "returns out = True"

definition template :: string where
  "template =
     ''# Project Instructions for AI Coding Assistants\<newline>'' @
     ''\<newline>'' @
     ''## Overview\<newline>'' @
     ''This file provides instructions and context for AI coding assistants (Claude Code, Cursor, etc.).\<newline>'' @
     ''It follows the AGENTS.md standard: https://agents.md/\<newline>'' @
     ''\<newline>'' @
     ''## Project Context\<newline>'' @
     ''<!-- Add your project description here -->\<newline>'' @
     ''\<newline>'' @
     ''## Coding Standards\<newline>'' @
     ''- Follow existing code style and conventions\<newline>'' @
     ''- Write clear, self-documenting code\<newline>'' @
     ''- Include appropriate error handling\<newline>'' @
     ''- Add tests for new functionality\<newline>'' @
     ''\<newline>'' @
     ''## Architecture\<newline>'' @
     ''<!-- Describe your project's architecture -->\<newline>'' @
     ''\<newline>'' @
     ''## Common Commands\<newline>'' @
     ''```bash\<newline>'' @
     ''# Development\<newline>'' @
     ''npm run dev          # Start development server\<newline>'' @
     ''npm run build        # Build for production\<newline>'' @
     ''npm run test         # Run tests\<newline>'' @
     ''npm run lint         # Run linter\<newline>'' @
     ''```\<newline>'' @
     ''\<newline>'' @
     ''## File Structure\<newline>'' @
     ''<!-- Describe important directories and files -->\<newline>'' @
     ''\<newline>'' @
     ''## Dependencies\<newline>'' @
     ''<!-- List key dependencies and their purposes -->\<newline>'' @
     ''\<newline>'' @
     ''## Notes\<newline>'' @
     ''<!-- Any additional context for the AI assistant -->\<newline>''"

definition reference_content :: string where
  "reference_content = ''See @AGENTS.md\<newline>''"

definition create_template :: "bool \<Rightarrow> filesystem \<Rightarrow> py_error + filesystem" where
  "create_template dry_run s =
     (if \<not> dry_run then write_text s agents_md template else Inr s)"

definition create_claude_reference :: "bool \<Rightarrow> filesystem \<Rightarrow> py_error + filesystem" where
  "create_claude_reference dry_run s =
     and_then
       (if is_symlink s claude_md then
          and_then (resolve s claude_md) (\<lambda>target.
          and_then (resolve s agents_md) (\<lambda>agents.
          Inr (target = agents)))
        else Inr False)
       (\<lambda>already_symlinked.
          if already_symlinked then Inr s
          else if \<not> dry_run then write_text s claude_md reference_content
          else Inr s)"

definition reconcile_both ::
  "(string \<Rightarrow> 'h) \<Rightarrow> filesystem \<Rightarrow> py_error + (outcome \<times> filesystem)" where
  "reconcile_both md5 s =
     and_then (file_hash md5 s agents_md) (\<lambda>agents_hash.
     and_then (file_hash md5 s claude_md) (\<lambda>claude_hash.
     and_then (read_text s claude_md) (\<lambda>claude_text.
       (let claude_content = lower (strip claude_text)
        in if prefix ''see @agents.md'' claude_content \<or> prefix ''see agents.md'' claude_content
           then Inr (InSync, s)
           else if agents_hash \<noteq> claude_hash then
             and_then (read_text s agents_md) (\<lambda>agents_text.
             and_then (read_text s claude_md) (\<lambda>claude_text.
               Inr (Diverged (length (splitlines agents_text))
                             (length (splitlines claude_text)), s)))
           else Inr (InSync, s)))))"

definition sync ::
  "(string \<Rightarrow> 'h) \<Rightarrow> bool \<Rightarrow> filesystem \<Rightarrow> py_error + (outcome \<times> filesystem)" where
  \<comment> \<open>the four cases are exhaustive: the final \<open>return True\<close> of the source is never reached\<close>
  "sync md5 dry_run s =
     (let agents_exists = exists s agents_md;
          claude_exists = exists s claude_md
      in if \<not> agents_exists \<and> \<not> claude_exists then
           and_then (create_template dry_run s) (\<lambda>s1.
           and_then (create_claude_reference dry_run s1) (\<lambda>s2.
           Inr (Bootstrapped, s2)))
         else if \<not> agents_exists \<and> claude_exists then
           and_then (if \<not> dry_run then copy2 s claude_md agents_md else Inr s) (\<lambda>s1.
           and_then (create_claude_reference dry_run s1) (\<lambda>s2.
           Inr (Migrated, s2)))
         else if agents_exists \<and> \<not> claude_exists then
           and_then (create_claude_reference dry_run s) (\<lambda>s1.
           Inr (ReferenceCreated, s1))
         else reconcile_both md5 s)"

section \<open>RulesSyncer\<close>

definition cursor_rules :: path where
  "cursor_rules = ''.cursor/rules''"

definition cursorrules_legacy :: path where
  "cursorrules_legacy = ''.cursorrules''"

definition migrate_legacy_cursorrules ::
  "string \<Rightarrow> bool \<Rightarrow> filesystem \<Rightarrow> py_error + (bool \<times> filesystem)" where
  \<comment> \<open>\<open>timestamp\<close> is the clock reading that \<open>backup_file\<close> takes\<close>
  "migrate_legacy_cursorrules timestamp dry_run s =
     and_then (read_text s cursorrules_legacy) (\<lambda>content.
       (let mdc_content = markdown_to_mdc content ''Migrated from legacy .cursorrules'' [] True;
            new_path = path_join cursor_rules ''project-rules.mdc''
        in if \<not> dry_run then
             and_then (ensure_dir s cursor_rules) (\<lambda>s1.
             and_then (write_text s1 new_path mdc_content) (\<lambda>s2.
             and_then (backup_file timestamp s2 cursorrules_legacy ''.cursor/backups'') (\<lambda>r.
             Inr (True, snd r))))
           else Inr (True, s)))"

section \<open>Properties of the conversion\<close>

lemmas str_defs = lower_def strip_def strip_chars_def lstrip_chars_def rstrip_chars_def
  isspace_def lower_char_def upper_chars_def lower_chars_def

lemma find_sub_None: "find_sub sub s = None \<longleftrightarrow> (\<forall>i. \<not> prefix sub (drop i s))"
proof (induction s)
  case Nil
  then show ?case by auto
next
  case (Cons c cs)
  have "(\<forall>i. \<not> prefix sub (drop i (c # cs))) \<longleftrightarrow>
        (\<not> prefix sub (c # cs) \<and> (\<forall>i. \<not> prefix sub (drop i cs)))"
  proof
    assume a: "\<forall>i. \<not> prefix sub (drop i (c # cs))"
    have "\<not> prefix sub (drop 0 (c # cs))" using a by blast
    moreover have "\<not> prefix sub (drop (Suc i) (c # cs))" for i using a by blast
    ultimately show "\<not> prefix sub (c # cs) \<and> (\<forall>i. \<not> prefix sub (drop i cs))" by simp
  next
    assume a: "\<not> prefix sub (c # cs) \<and> (\<forall>i. \<not> prefix sub (drop i cs))"
    show "\<forall>i. \<not> prefix sub (drop i (c # cs))"
    proof
      fix i show "\<not> prefix sub (drop i (c # cs))" using a by (cases i) auto
    qed
  qed
  with Cons show ?case by simp
qed

lemma str_find_None:
  "start \<le> length s \<Longrightarrow>
   str_find s sub start = None \<longleftrightarrow> (\<forall>i. \<not> prefix sub (drop (start + i) s))"
  by (simp add: str_find_def find_sub_None add.commute)

lemma rstrip_prefix: "\<exists>zs. s = rstrip_chars P s @ zs"
proof -
  have "rev (dropWhile P (rev s)) @ rev (takeWhile P (rev s)) =
        rev (takeWhile P (rev s) @ dropWhile P (rev s))"
    by (simp only: rev_append)
  also have "\<dots> = s"
    by (simp only: takeWhile_dropWhile_id rev_rev_ident)
  finally show ?thesis unfolding rstrip_chars_def by metis
qed

lemma lstrip_rstrip_fix: "lstrip_chars P (rstrip_chars P (lstrip_chars P s)) = rstrip_chars P (lstrip_chars P s)"
proof (cases "rstrip_chars P (lstrip_chars P s) = []")
  case True
  then show ?thesis by (simp add: lstrip_chars_def)
next
  case False
  obtain zs where z: "lstrip_chars P s = rstrip_chars P (lstrip_chars P s) @ zs"
    using rstrip_prefix by blast
  from False z have ne: "lstrip_chars P s \<noteq> []" by auto
  have "hd (rstrip_chars P (lstrip_chars P s)) = hd (lstrip_chars P s)"
    using False z by (metis hd_append2)
  moreover have "\<not> P (hd (lstrip_chars P s))"
    using ne unfolding lstrip_chars_def by (rule hd_dropWhile)
  ultimately have "\<not> P (hd (rstrip_chars P (lstrip_chars P s)))" by simp
  with False show ?thesis unfolding lstrip_chars_def
    by (cases "rstrip_chars P (dropWhile P s)") auto
qed

lemma rstrip_idem: "rstrip_chars P (rstrip_chars P s) = rstrip_chars P s"
  by (simp add: rstrip_chars_def)

lemma strip_chars_idem: "strip_chars P (strip_chars P s) = strip_chars P s"
  by (simp add: strip_chars_def lstrip_rstrip_fix rstrip_idem)

lemma strip_chars_hd: "strip_chars P s \<noteq> [] \<Longrightarrow> \<not> P (hd (strip_chars P s))"
proof -
  assume ne: "strip_chars P s \<noteq> []"
  have "dropWhile P (strip_chars P s) = strip_chars P s"
    using lstrip_rstrip_fix [of P s] by (simp add: strip_chars_def lstrip_chars_def)
  with ne show ?thesis by (metis hd_dropWhile)
qed

lemma strip_chars_last: "strip_chars P s \<noteq> [] \<Longrightarrow> \<not> P (last (strip_chars P s))"
proof -
  assume ne: "strip_chars P s \<noteq> []"
  then have "dropWhile P (rev (lstrip_chars P s)) \<noteq> []"
    by (simp add: strip_chars_def rstrip_chars_def)
  then have "\<not> P (hd (dropWhile P (rev (lstrip_chars P s))))" by (rule hd_dropWhile)
  then show ?thesis using ne
    by (simp add: strip_chars_def rstrip_chars_def last_rev)
qed

lemma split_first_app: "sep \<notin> set k \<Longrightarrow> split_first sep (k @ sep # v) = (k, v)"
proof -
  assume a: "sep \<notin> set k"
  then have b: "\<forall>x\<in>set k. x \<noteq> sep" by auto
  then have "takeWhile (\<lambda>c. c \<noteq> sep) (k @ sep # v) = k"
    by (simp add: takeWhile_append2)
  moreover have "dropWhile (\<lambda>c. c \<noteq> sep) (k @ sep # v) = sep # v"
    using b by (simp add: dropWhile_append2)
  ultimately show ?thesis by (simp add: split_first_def)
qed


text \<open>
  C3: for every body text \<open>B\<close>, parsing the tagged text written for \<open>B\<close> with description
  \<open>d\<close>, globs \<open>*.ts\<close> and \<open>alwaysApply\<close> true gives the body \<open>B\<close> stripped of surrounding
  whitespace, and exactly the three metadata entries, \<open>alwaysApply\<close> being the boolean
  \<open>True\<close> and not a string.
\<close>

theorem round_trip:
  "mdc_to_markdown (markdown_to_mdc B ''d'' ''*.ts'' True) =
     (strip B, [(''description'', Str ''d''), (''globs'', Str ''*.ts''),
                (''alwaysApply'', Bool True)])
   \<and> strip (fst (mdc_to_markdown (markdown_to_mdc B ''d'' ''*.ts'' True))) = strip B"
proof -
  have "mdc_to_markdown (markdown_to_mdc B ''d'' ''*.ts'' True) =
     (strip B, [(''description'', Str ''d''), (''globs'', Str ''*.ts''),
                (''alwaysApply'', Bool True)])"
    by (simp add: markdown_to_mdc_def mdc_to_markdown_def str_find_def str_of_bool_def
        Let_def split_def parse_line_def split_first_def coerce_def str_defs)
  then show ?thesis by (simp add: strip_def strip_chars_idem)
qed

theorem round_trip_witness:
  "mdc_to_markdown (markdown_to_mdc ''  Use strict types.\<newline>'' ''d'' ''*.ts'' True) =
     (''Use strict types.'', [(''description'', Str ''d''), (''globs'', Str ''*.ts''),
                (''alwaysApply'', Bool True)])"
  using round_trip [of "''  Use strict types.\<newline>''"] by (simp add: str_defs)

text \<open>
  C7: a text that does not begin with the fence \<open>---\<close> comes back unchanged as the body,
  with empty metadata; so does a text that begins with the fence and has no further fence
  from index 3 on. The function is total: it raises nothing.
\<close>

theorem fallback:
  "(\<not> prefix ''---'' X \<longrightarrow> mdc_to_markdown X = (X, [])) \<and>
   (prefix ''---'' X \<and> (\<forall>i. \<not> prefix ''---'' (drop (3 + i) X))
      \<longrightarrow> mdc_to_markdown X = (X, []))"
proof (intro conjI impI)
  assume "\<not> prefix ''---'' X"
  then show "mdc_to_markdown X = (X, [])" by (simp add: mdc_to_markdown_def)
next
  assume a: "prefix ''---'' X \<and> (\<forall>i. \<not> prefix ''---'' (drop (3 + i) X))"
  then have "3 \<le> length X" by (auto simp: prefix_def)
  with a have "str_find X ''---'' 3 = None" by (simp add: str_find_None)
  then show "mdc_to_markdown X = (X, [])" by (simp add: mdc_to_markdown_def)
qed

theorem fallback_witness:
  "\<not> prefix ''---'' ''plain rule'' \<and> mdc_to_markdown ''plain rule'' = (''plain rule'', []) \<and>
   prefix ''---'' ''---\<newline>key: v'' \<and> (\<forall>i. \<not> prefix ''---'' (drop (3 + i) ''---\<newline>key: v'')) \<and>
   mdc_to_markdown ''---\<newline>key: v'' = (''---\<newline>key: v'', [])"
proof -
  define X where "X = ''plain rule''"
  define Y where "Y = ''---\<newline>key: v''"
  have 1: "\<not> prefix ''---'' X" unfolding X_def by simp
  have "find_sub ''---'' (drop 3 Y) = None" unfolding Y_def by simp
  then have "\<forall>i. \<not> prefix ''---'' (drop i (drop 3 Y))"
    by (rule iffD1 [OF find_sub_None])
  then have 2: "\<forall>i. \<not> prefix ''---'' (drop (3 + i) Y)"
    by (simp add: add.commute)
  have 3: "prefix ''---'' Y" unfolding Y_def by simp
  have "mdc_to_markdown X = (X, [])" using fallback [of X] 1 by blast
  moreover have "mdc_to_markdown Y = (Y, [])" using fallback [of Y] 2 3 by blast
  ultimately show ?thesis using 1 2 3 unfolding X_def Y_def by blast
qed

lemma find_sub_first:
  "\<forall>i<n. \<not> prefix sub (drop i s) \<Longrightarrow> prefix sub (drop n s) \<Longrightarrow> n \<le> length s \<Longrightarrow>
   find_sub sub s = Some n"
proof (induction s arbitrary: n)
  case Nil
  then show ?case by auto
next
  case (Cons c cs)
  show ?case
  proof (cases n)
    case 0
    with Cons.prems show ?thesis by simp
  next
    case (Suc m)
    have "\<not> prefix sub (drop 0 (c # cs))" using Cons.prems(1) Suc by blast
    then have no: "\<not> prefix sub (c # cs)" by simp
    have "\<forall>i<m. \<not> prefix sub (drop i cs)"
    proof (intro allI impI)
      fix i assume "i < m"
      then have "Suc i < n" using Suc by simp
      then have "\<not> prefix sub (drop (Suc i) (c # cs))" using Cons.prems(1) by blast
      then show "\<not> prefix sub (drop i cs)" by simp
    qed
    moreover have "prefix sub (drop m cs)" using Cons.prems(2) Suc by simp
    moreover have "m \<le> length cs" using Cons.prems(3) Suc by simp
    ultimately have "find_sub sub cs = Some m" by (rule Cons.IH)
    with no Suc show ?thesis by simp
  qed
qed

lemma drop_fence: "length f = 3 \<Longrightarrow> drop (3 + length fm + 3) (f @ fm @ f @ rest) = rest"
  by simp

lemma take_fence: "length f = 3 \<Longrightarrow> take (3 + length fm - 3) (drop 3 (f @ fm @ f @ rest)) = fm"
  by simp

lemma mdc_to_markdown_fenced:
  assumes "\<forall>i<length fm. \<not> prefix ''---'' (drop i (fm @ ''---'' @ rest))"
  shows "mdc_to_markdown (''---'' @ fm @ ''---'' @ rest) =
           (strip rest, foldl parse_line [] (split CHR ''\<newline>'' (strip fm)))"
proof -
  have "find_sub ''---'' (fm @ ''---'' @ rest) = Some (length fm)"
    using assms by (intro find_sub_first) auto
  then have "str_find (''---'' @ fm @ ''---'' @ rest) ''---'' 3 = Some (3 + length fm)"
    by (simp add: str_find_def)
  moreover have "prefix ''---'' (''---'' @ fm @ ''---'' @ rest)"
    by simp
  ultimately have "mdc_to_markdown (''---'' @ fm @ ''---'' @ rest) =
      (strip (drop (3 + length fm + 3) (''---'' @ fm @ ''---'' @ rest)),
       foldl parse_line [] (split CHR ''\<newline>''
         (strip (take (3 + length fm - 3) (drop 3 (''---'' @ fm @ ''---'' @ rest))))))"
    unfolding mdc_to_markdown_def by (simp only: if_False not_True_eq_False option.case Let_def)
  moreover have "drop (3 + length fm + 3) (''---'' @ fm @ ''---'' @ rest) = rest"
    by (rule drop_fence) simp
  moreover have "take (3 + length fm - 3) (drop 3 (''---'' @ fm @ ''---'' @ rest)) = fm"
    by (rule take_fence) simp
  ultimately show ?thesis by (simp only:)
qed

lemma parse_line_colon:
  "CHR '':'' \<notin> set k \<Longrightarrow>
   parse_line md (k @ '':'' @ v) =
     AList.update (strip k)
       (coerce (strip_chars (\<lambda>c. c = CHR 0x27) (strip_chars (\<lambda>c. c = CHR 0x22) (strip v)))) md"
  using split_first_app [of "CHR '':''" k v]
  by (simp add: parse_line_def)

text \<open>
  C8, as the code has it: when the fence after the opening one closes the region \<open>fm\<close>,
  the metadata is the fold of \<open>parse_line\<close> over the lines of the stripped region. A line
  without a colon leaves the metadata as it is. A line \<open>k:v\<close> whose \<open>k\<close> has no colon
  stores under the key \<open>k\<close>, stripped of whitespace only, the value \<open>v\<close> stripped of
  whitespace, then of every leading and trailing double quote, then of every leading and
  trailing single quote (what \<open>strip_chars\<close> leaves neither begins nor ends with a
  stripped character). A value that reads \<open>true\<close> or \<open>false\<close> in lower case becomes that
  boolean, every other value stays a string.
\<close>

theorem metadata_lines:
  "((\<forall>i<length fm. \<not> prefix ''---'' (drop i (fm @ ''---'' @ rest))) \<longrightarrow>
      mdc_to_markdown (''---'' @ fm @ ''---'' @ rest) =
        (strip rest, foldl parse_line [] (split CHR ''\<newline>'' (strip fm))))
   \<and> (CHR '':'' \<notin> set l \<longrightarrow> parse_line md l = md)
   \<and> (CHR '':'' \<notin> set k \<longrightarrow>
        parse_line md (k @ '':'' @ v) =
          AList.update (strip k)
            (coerce (strip_chars (\<lambda>c. c = CHR 0x27)
                      (strip_chars (\<lambda>c. c = CHR 0x22) (strip v)))) md)
   \<and> (strip_chars P x = [] \<or> (\<not> P (hd (strip_chars P x)) \<and> \<not> P (last (strip_chars P x))))
   \<and> (lower x = ''true'' \<longrightarrow> coerce x = Bool True)
   \<and> (lower x = ''false'' \<longrightarrow> coerce x = Bool False)
   \<and> (lower x \<noteq> ''true'' \<and> lower x \<noteq> ''false'' \<longrightarrow> coerce x = Str x)"
proof (intro conjI)
  show "(\<forall>i<length fm. \<not> prefix ''---'' (drop i (fm @ ''---'' @ rest))) \<longrightarrow>
      mdc_to_markdown (''---'' @ fm @ ''---'' @ rest) =
        (strip rest, foldl parse_line [] (split CHR ''\<newline>'' (strip fm)))"
    using mdc_to_markdown_fenced by blast
  show "CHR '':'' \<notin> set l \<longrightarrow> parse_line md l = md"
    by (simp add: parse_line_def)
  show "CHR '':'' \<notin> set k \<longrightarrow>
        parse_line md (k @ '':'' @ v) =
          AList.update (strip k)
            (coerce (strip_chars (\<lambda>c. c = CHR 0x27)
                      (strip_chars (\<lambda>c. c = CHR 0x22) (strip v)))) md"
    using parse_line_colon by blast
  show "strip_chars P x = [] \<or> (\<not> P (hd (strip_chars P x)) \<and> \<not> P (last (strip_chars P x)))"
    using strip_chars_hd strip_chars_last by blast
  show "lower x = ''true'' \<longrightarrow> coerce x = Bool True"
    by (simp add: coerce_def)
  show "lower x = ''false'' \<longrightarrow> coerce x = Bool False"
    by (simp add: coerce_def)
  show "lower x \<noteq> ''true'' \<and> lower x \<noteq> ''false'' \<longrightarrow> coerce x = Str x"
    by (simp add: coerce_def)
qed

theorem metadata_lines_counterexample:
  "snd (mdc_to_markdown ''---\<newline>\"k\": \"\"v\"\"\<newline>---\<newline>body'') = [(''\"k\"'', Str ''v'')]
   \<and> snd (mdc_to_markdown ''---\<newline>\"k\": \"\"v\"\"\<newline>---\<newline>body'') \<noteq> [(''k'', Str ''\"v\"'')]"
  by (simp add: mdc_to_markdown_def str_find_def Let_def split_def split_acc.simps
        parse_line_def split_first_def coerce_def str_defs)

theorem metadata_lines_witness:
  "mdc_to_markdown ''---\<newline>k: 'v'\<newline>---\<newline>body'' = (''body'', [(''k'', Str ''v'')])
   \<and> parse_line [] ''nocolon'' = []
   \<and> parse_line [] ('' key '' @ '':'' @ '' \"'TRUE'\" '') = [(''key'', Bool True)]
   \<and> coerce ''False'' = Bool False
   \<and> coerce ''abc'' = Str ''abc''"
proof -
  define fm where "fm = ''\<newline>k: 'v'\<newline>''"
  define rest where "rest = ''\<newline>body''"
  have len: "length fm = 8" by (simp add: fm_def)
  have "\<not> prefix ''---'' (drop i (fm @ ''---'' @ rest))" if "i < 8" for i
  proof -
    from that have "i \<in> {0, 1, 2, 3, 4, 5, 6, 7}" by auto
    then show ?thesis by (auto simp: fm_def rest_def)
  qed
  then have h: "\<forall>i<length fm. \<not> prefix ''---'' (drop i (fm @ ''---'' @ rest))"
    using len by simp
  have 1: "mdc_to_markdown (''---'' @ fm @ ''---'' @ rest) =
        (strip rest, foldl parse_line [] (split CHR ''\<newline>'' (strip fm)))"
    using metadata_lines [of fm rest] h by blast
  have 2: "parse_line [] ''nocolon'' = []"
    using metadata_lines [of _ _ "''nocolon''" "[]"] by simp
  have 3: "parse_line [] ('' key '' @ '':'' @ '' \"'TRUE'\" '') =
     AList.update (strip '' key '')
            (coerce (strip_chars (\<lambda>c. c = CHR 0x27)
                      (strip_chars (\<lambda>c. c = CHR 0x22) (strip '' \"'TRUE'\" '')))) []"
    using metadata_lines [of _ _ _ "[]" "'' key ''" "'' \"'TRUE'\" ''"] by simp
  have 4: "coerce ''TRUE'' = Bool True"
    using metadata_lines [of _ _ _ _ _ _ _ "''TRUE''"] by (simp add: str_defs)
  have 5: "coerce ''False'' = Bool False"
    using metadata_lines [of _ _ _ _ _ _ _ "''False''"] by (simp add: str_defs)
  have 6: "coerce ''abc'' = Str ''abc''"
    using metadata_lines [of _ _ _ _ _ _ _ "''abc''"] by (simp add: str_defs)
  have 7: "strip rest = ''body''" by (simp add: rest_def str_defs)
  have 8: "foldl parse_line [] (split CHR ''\<newline>'' (strip fm)) = [(''k'', Str ''v'')]"
    by (simp add: fm_def split_def parse_line_def split_first_def str_defs coerce_def)
  have 9: "strip_chars (\<lambda>c. c = CHR 0x27)
                      (strip_chars (\<lambda>c. c = CHR 0x22) (strip '' \"'TRUE'\" '')) = ''TRUE''"
    by (simp add: str_defs)
  have 10: "strip '' key '' = ''key''" by (simp add: str_defs)
  show ?thesis
    using 1 2 3 4 5 6 7 8 9 10 by (simp add: fm_def rest_def)
qed

end
